theory Spec2Isabelle
  imports Complex_Main "HOL-Library.Sublist"
begin

text \<open>
  A shallow embedding of the ingestion pipeline of the hotel-content service: the
  field mappers (\<open>internal/app/mappers.go\<close>), the upstream client
  (\<open>internal/adapters/cupid/client.go\<close>) and the ingestion service
  (\<open>internal/app/commands.go\<close>). Pure functions are HOL functions; the functions
  that talk to the network, the store and the cache take the state of the outside world
  and return the list of calls they made. The definitions come first, then the
  properties.
\<close>

section \<open>Strings\<close>

text \<open>
  Go strings are byte sequences; they are modelled as \<open>string\<close> (a list of 8-bit
  characters). The helpers of package \<open>strings\<close> that the program calls are written out
  for ASCII text: \<open>ToLower\<close> maps the letters A-Z, \<open>TrimSpace\<close> strips the six ASCII
  white-space bytes. (Go additionally folds and strips multi-byte Unicode runes; every
  constant the program compares against is ASCII.)
\<close>

definition isSpace :: "char \<Rightarrow> bool" where
  "isSpace c = (c \<in> set [CHR 0x09, CHR 0x0A, CHR 0x0B, CHR 0x0C, CHR 0x0D, CHR 0x20])"

definition TrimSpace :: "string \<Rightarrow> string" where
  "TrimSpace s = rev (dropWhile isSpace (rev (dropWhile isSpace s)))"

definition toLowerChar :: "char \<Rightarrow> char" where
  "toLowerChar c =
     (case map_of (zip ''ABCDEFGHIJKLMNOPQRSTUVWXYZ'' ''abcdefghijklmnopqrstuvwxyz'') c of
        None \<Rightarrow> c
      | Some l \<Rightarrow> l)"

definition ToLower :: "string \<Rightarrow> string" where
  "ToLower s = map toLowerChar s"



fun Join :: "string list \<Rightarrow> string \<Rightarrow> string" where
  "Join [] sep = []"
| "Join [x] sep = x"
| "Join (x # y # ys) sep = x @ sep @ Join (y # ys) sep"

text \<open>\<open>strings.Split(s, sep)\<close> for a one-byte separator.\<close>

fun Split :: "string \<Rightarrow> char \<Rightarrow> string list" where
  "Split [] sep = [[]]"
| "Split (c # s) sep =
     (if c = sep then [] # Split s sep
      else (case Split s sep of [] \<Rightarrow> [[c]] | p # ps \<Rightarrow> (c # p) # ps))"

text \<open>\<open>strings.ReplaceAll(s, ",", ".")\<close>.\<close>

definition ReplaceComma :: "string \<Rightarrow> string" where
  "ReplaceComma s = map (\<lambda>c. if c = CHR '','' then CHR ''.'' else c) s"

text \<open>Decimal formatting of an integer (\<open>%d\<close>).\<close>

definition digit_char :: "nat \<Rightarrow> char" where
  "digit_char d = ''0123456789'' ! (d mod 10)"

fun fmt_nat :: "nat \<Rightarrow> string" where
  "fmt_nat n = (if n < 10 then [digit_char n] else fmt_nat (n div 10) @ [digit_char n])"

declare fmt_nat.simps [simp del]

definition fmt_d :: "int \<Rightarrow> string" where
  "fmt_d i = (if i < 0 then CHR ''-'' # fmt_nat (nat (- i)) else fmt_nat (nat i))"

text \<open>
  \<open>strconv.ParseInt(s, 10, 64)\<close> with \<open>err == nil\<close>: an optional sign, then one or
  more decimal digits, the value within the range of int64.
\<close>

definition digit_val :: "char \<Rightarrow> nat option" where
  "digit_val c = map_of (zip ''0123456789'' [0, 1, 2, 3, 4, 5, 6, 7, 8, 9]) c"

fun parse_digits :: "string \<Rightarrow> nat \<Rightarrow> nat option" where
  "parse_digits [] acc = Some acc"
| "parse_digits (c # cs) acc =
     (case digit_val c of None \<Rightarrow> None | Some d \<Rightarrow> parse_digits cs (10 * acc + d))"

definition ParseInt64 :: "string \<Rightarrow> int option" where
  "ParseInt64 s =
     (let neg = (take 1 s = ''-'');
          ds = (if take 1 s = ''-'' \<or> take 1 s = ''+'' then drop 1 s else s)
      in if ds = [] then None
         else (case parse_digits ds 0 of
                 None \<Rightarrow> None
               | Some n \<Rightarrow>
                   (let v = (if neg then - int n else int n)
                    in if - (2 ^ 63) \<le> v \<and> v \<le> 2 ^ 63 - 1 then Some v else None)))"

text \<open>\<open>hex.EncodeToString\<close>: two lower-case hexadecimal digits per byte.\<close>

definition hex_digit :: "nat \<Rightarrow> char" where
  "hex_digit d = ''0123456789abcdef'' ! (d mod 16)"

definition hex_EncodeToString :: "string \<Rightarrow> string" where
  "hex_EncodeToString bs =
     concat (map (\<lambda>c. [hex_digit (of_char c div 16), hex_digit (of_char c)]) bs)"

section \<open>Untyped documents\<close>

text \<open>
  A decoded JSON value (\<open>any\<close>): the dynamic types the mappers' type switches
  distinguish (constructors carry the prefix V). \<open>'f\<close> stands for \<open>float64\<close>. An object \<open>map[string]any\<close> is an
  association list read with \<open>map_of\<close>.
\<close>

datatype 'f any =
    VNil
  | VBool bool
  | VFloat64 'f
  | VInt int
  | VInt64 int
  | VString string
  | VSlice "'f any list"
  | VMap "(string \<times> 'f any) list"

type_synonym 'f doc = "(string \<times> 'f any) list"

text \<open>
  The library functions on floats, JSON and hashing are parameters of the model:
  \<open>strconv.ParseFloat(s, 64)\<close> (its value when \<open>err == nil\<close>), the conversions
  \<open>float64(int)\<close>, \<open>int64(float64)\<close> and \<open>int(float64)\<close>,
  \<open>fmt.Sprintf("%.3f", x)\<close>, \<open>json.Marshal\<close> and \<open>sha1.Sum\<close>.
\<close>

record 'f lib =
  ParseFloat :: "string \<Rightarrow> 'f option"
  float64_of_int :: "int \<Rightarrow> 'f"
  int64_of_float :: "'f \<Rightarrow> int"
  int_of_float :: "'f \<Rightarrow> int"
  Sprintf_3f :: "'f \<Rightarrow> string"
  json_Marshal :: "'f any \<Rightarrow> string option"
  sha1_Sum :: "string \<Rightarrow> string"

subsection \<open>Alias registries\<close>

definition reviewAliases :: "(string \<times> string list) list" where
  "reviewAliases =
    [(''author'', [''author'', ''name'', ''userName'', ''reviewer'', ''reviewer.name'']),
     (''author_first'', [''first_name'', ''firstname'', ''user.first_name'', ''user.firstName'']),
     (''author_last'', [''last_name'', ''lastname'', ''user.last_name'', ''user.lastName'']),
     (''title'', [''title'', ''review_title'', ''headline'', ''summary'']),
     (''text'', [''text'', ''review_text'', ''review'', ''comment'', ''content'', ''body'', ''message'']),
     (''lang'', [''lang'', ''language'', ''language_code'', ''languageCode'', ''locale'']),
     (''source'', [''source'', ''platform'', ''provider'', ''site'', ''origin'']),
     (''source_id'', [''id'', ''review_id'', ''reviewId'']),
     (''rating'', [''rating'', ''rate'', ''score'', ''rating.value'', ''scores.overall'',
                   ''overall_score'', ''average_score''])]"


text \<open>\<open>aliases[key]\<close>: a missing key yields the nil slice.\<close>

definition aliases_at :: "(string \<times> string list) list \<Rightarrow> string \<Rightarrow> string list" where
  "aliases_at aliases key = (case map_of aliases key of None \<Rightarrow> [] | Some ps \<Rightarrow> ps)"

subsection \<open>Helpers\<close>

fun lookupParts :: "'f any \<Rightarrow> string list \<Rightarrow> 'f any" where
  "lookupParts cur [] = cur"
| "lookupParts cur (part # parts) =
     (case cur of
        VMap obj \<Rightarrow> (case map_of obj part of None \<Rightarrow> VNil | Some v \<Rightarrow> lookupParts v parts)
      | _ \<Rightarrow> VNil)"

definition lookupAny :: "'f doc \<Rightarrow> string \<Rightarrow> 'f any" where
  "lookupAny m path = lookupParts (VMap m) (Split path CHR ''.'')"

definition lookupStr :: "'f doc \<Rightarrow> string \<Rightarrow> string" where
  "lookupStr m path = (case lookupAny m path of VString s \<Rightarrow> s | _ \<Rightarrow> [])"

fun firstNonEmpty :: "'f doc \<Rightarrow> string list \<Rightarrow> string option" where
  "firstNonEmpty m [] = None"
| "firstNonEmpty m (p # ps) =
     (if lookupStr m p \<noteq> [] then Some (lookupStr m p) else firstNonEmpty m ps)"

definition firstNonEmptyAlias ::
  "'f doc \<Rightarrow> (string \<times> string list) list \<Rightarrow> string \<Rightarrow> string option" where
  "firstNonEmptyAlias m aliases key = firstNonEmpty m (aliases_at aliases key)"

definition deref :: "string option \<Rightarrow> string" where
  "deref p = (case p of None \<Rightarrow> [] | Some s \<Rightarrow> s)"


definition joinNonEmpty :: "string list \<Rightarrow> string" where
  "joinNonEmpty parts = Join (filter (\<lambda>t. t \<noteq> []) (map TrimSpace parts)) '' ''"

fun getFloatFlexible :: "'f lib \<Rightarrow> 'f doc \<Rightarrow> string list \<Rightarrow> 'f option" where
  "getFloatFlexible L m [] = None"
| "getFloatFlexible L m (k # ks) =
     (case lookupAny m k of
        VFloat64 v \<Rightarrow> Some v
      | VInt v \<Rightarrow> Some (float64_of_int L v)
      | VString v \<Rightarrow>
          (let s = TrimSpace (ReplaceComma v)
           in if s = [] then getFloatFlexible L m ks
              else (case ParseFloat L s of
                      Some f \<Rightarrow> Some f
                    | None \<Rightarrow> getFloatFlexible L m ks))
      | _ \<Rightarrow> getFloatFlexible L m ks)"


text \<open>One element of a \<open>[]any\<close>: a non-empty string, or an object's url, src or name.\<close>

definition strField :: "'f doc \<Rightarrow> string \<Rightarrow> string" where
  "strField t k = (case map_of t k of Some (VString u) \<Rightarrow> u | _ \<Rightarrow> [])"

definition sliceItem :: "'f any \<Rightarrow> string list" where
  "sliceItem it =
     (case it of
        VString t \<Rightarrow> (if t \<noteq> [] then [t] else [])
      | VMap t \<Rightarrow>
          (if strField t ''url'' \<noteq> [] then [strField t ''url'']
           else if strField t ''src'' \<noteq> [] then [strField t ''src'']
           else if strField t ''name'' \<noteq> [] then [strField t ''name'']
           else [])
      | _ \<Rightarrow> [])"

fun firstSliceStrings :: "'f doc \<Rightarrow> string list \<Rightarrow> string list" where
  "firstSliceStrings m [] = []"
| "firstSliceStrings m (k # ks) =
     (case lookupAny m k of
        VSlice raw \<Rightarrow>
          (let out = concat (map sliceItem raw)
           in if length out > 0 then out else firstSliceStrings m ks)
      | _ \<Rightarrow> firstSliceStrings m ks)"


section \<open>Domain records\<close>

text \<open>A nil pointer, and a nil byte slice, is \<open>None\<close>; a nil string slice is \<open>[]\<close>.\<close>

record 'f Hotel =
  Hotel_ID :: int
  Hotel_BrandID :: "int option"
  Hotel_Stars :: "int option"
  Hotel_Lat :: "'f option"
  Hotel_Lon :: "'f option"
  Hotel_Country :: "string option"
  Hotel_City :: "string option"
  Hotel_AddressRaw :: "string option"
  Hotel_Amenities :: "string list"
  Hotel_Images :: "string list"
  Hotel_RawJSON :: "string option"

record HotelI18n =
  I18n_PropertyID :: int
  I18n_Lang :: string
  I18n_Name :: "string option"
  I18n_Description :: "string option"
  I18n_Policies :: "string option"
  I18n_Address :: "string option"
  I18n_ExtrasJSON :: "string option"

record 'f Review =
  Review_ID :: int
  Review_PropertyID :: int
  Review_SourceID :: "string option"
  Review_Author :: "string option"
  Review_Rating :: "'f option"
  Review_Lang :: "string option"
  Review_Title :: "string option"
  Review_Text :: "string option"
  Review_AspectsJSON :: "string option"
  Review_Source :: "string option"
  Review_RawJSON :: "string option"

section \<open>Property mapper\<close>






section \<open>Reviews mapper\<close>

text \<open>Author: a single field, else first name and last name.\<close>

definition review_Author :: "'f doc \<Rightarrow> string option" where
  "review_Author r =
     (case firstNonEmptyAlias r reviewAliases ''author'' of
        Some s \<Rightarrow> Some s
      | None \<Rightarrow>
          (let first = firstNonEmptyAlias r reviewAliases ''author_first'';
               last = firstNonEmptyAlias r reviewAliases ''author_last''
           in if first \<noteq> None \<or> last \<noteq> None
              then (let full = TrimSpace (joinNonEmpty [deref first, deref last])
                    in if full \<noteq> [] then Some full else None)
              else None))"

text \<open>Text: a body field, else composed from pros and cons.\<close>

definition review_Text :: "'f doc \<Rightarrow> string option" where
  "review_Text r =
     (case firstNonEmptyAlias r reviewAliases ''text'' of
        Some s \<Rightarrow> Some s
      | None \<Rightarrow>
          (let pros = lookupStr r ''pros''; cons = lookupStr r ''cons''
           in if pros \<noteq> [] \<or> cons \<noteq> []
              then (let joined =
                          TrimSpace (Join [TrimSpace (''Pros: '' @ pros),
                                           TrimSpace (''Cons: '' @ cons)] [CHR 0x0A])
                    in if joined \<noteq> [] then Some joined else None)
              else None))"

text \<open>SourceID: the explicit identifier, else the hash of the mapped content.\<close>

definition review_SourceID ::
  "'f lib \<Rightarrow> 'f doc \<Rightarrow> string option \<Rightarrow> string option \<Rightarrow> string option \<Rightarrow> string option \<Rightarrow>
   'f option \<Rightarrow> string option" where
  "review_SourceID L r author title text lang rating =
     (case firstNonEmptyAlias r reviewAliases ''source_id'' of
        Some s \<Rightarrow> Some s
      | None \<Rightarrow>
          (let a = deref author; t = deref title; b = deref text; l = deref lang;
               rs = (case rating of None \<Rightarrow> [] | Some x \<Rightarrow> Sprintf_3f L x);
               sig = Join [a, t, b, l, rs] ''|'';
               sum = sha1_Sum L sig
           in Some (hex_EncodeToString sum)))"

text \<open>Aspects: pros and cons as arrays, a single string wrapped into one element.\<close>

definition review_prosArr :: "'f doc \<Rightarrow> string list" where
  "review_prosArr r =
     (let prosArr = firstSliceStrings r [''pros'', ''review.pros'', ''positives'']
      in if length prosArr = 0
         then (if TrimSpace (lookupStr r ''pros'') \<noteq> [] then [TrimSpace (lookupStr r ''pros'')]
               else if TrimSpace (lookupStr r ''positives'') \<noteq> []
                    then [TrimSpace (lookupStr r ''positives'')]
               else prosArr)
         else prosArr)"

definition review_consArr :: "'f doc \<Rightarrow> string list" where
  "review_consArr r =
     (let consArr = firstSliceStrings r [''cons'', ''review.cons'', ''negatives'']
      in if length consArr = 0
         then (if TrimSpace (lookupStr r ''cons'') \<noteq> [] then [TrimSpace (lookupStr r ''cons'')]
               else if TrimSpace (lookupStr r ''negatives'') \<noteq> []
                    then [TrimSpace (lookupStr r ''negatives'')]
               else consArr)
         else consArr)"

definition review_AspectsJSON :: "'f lib \<Rightarrow> 'f doc \<Rightarrow> string option" where
  "review_AspectsJSON L r =
     (let prosArr = review_prosArr r; consArr = review_consArr r;
          aspects =
            (if length prosArr > 0 then [(''pros'', VSlice (map VString prosArr))] else []) @
            (if length consArr > 0 then [(''cons'', VSlice (map VString consArr))] else [])
      in if length aspects > 0 then json_Marshal L (VMap aspects) else None)"

definition mapReview :: "'f lib \<Rightarrow> int \<Rightarrow> 'f doc \<Rightarrow> 'f Review" where
  "mapReview L propertyID r =
     (let author = review_Author r;
          title = firstNonEmptyAlias r reviewAliases ''title'';
          text = review_Text r;
          lang = firstNonEmptyAlias r reviewAliases ''lang'';
          rating = getFloatFlexible L r (aliases_at reviewAliases ''rating'');
          source = firstNonEmptyAlias r reviewAliases ''source''
      in \<lparr> Review_ID = 0,
           Review_PropertyID = propertyID,
           Review_SourceID = review_SourceID L r author title text lang rating,
           Review_Author = author,
           Review_Rating = rating,
           Review_Lang = lang,
           Review_Title = title,
           Review_Text = text,
           Review_AspectsJSON = review_AspectsJSON L r,
           Review_Source = source,
           Review_RawJSON = json_Marshal L (VMap r) \<rparr>)"

definition mapReviews :: "'f lib \<Rightarrow> int \<Rightarrow> 'f doc list \<Rightarrow> 'f Review list" where
  "mapReviews L propertyID docs = map (mapReview L propertyID) docs"

section \<open>Localized-fields mapper\<close>


section \<open>Errors\<close>

text \<open>
  Go's \<open>error\<close> is an interface. The program observes two things of an error value:
  its text (\<open>err.Error()\<close>) and which sentinel values \<open>errors.Is\<close> finds along its
  chain. An error value is modelled by exactly these two observations. The sentinels
  are the three of the client package and \<open>domain.ErrNotFound\<close>, which is declared
  outside the sources at hand and is a value of its own.
\<close>

datatype sentinel = CupidErrNotFound | CupidErrUnauthorized | CupidErrForbidden | DomainErrNotFound

datatype error = Err (Error: string) (is_chain: "sentinel list")

definition errors_Is :: "error \<Rightarrow> sentinel \<Rightarrow> bool" where
  "errors_Is err target = (target \<in> set (is_chain err))"

definition errors_New :: "string \<Rightarrow> error" where
  "errors_New text = Err text []"


text \<open>The sentinels of the client package.\<close>

definition ErrNotFound :: error where
  "ErrNotFound = Err ''cupid: not found'' [CupidErrNotFound]"

definition ErrUnauthorized :: error where
  "ErrUnauthorized = Err ''cupid: unauthorized'' [CupidErrUnauthorized]"

definition ErrForbidden :: error where
  "ErrForbidden = Err ''cupid: forbidden'' [CupidErrForbidden]"

section \<open>Effects\<close>

text \<open>
  A computation with effects takes the state of the outside world and returns its
  result, the new world and the list of calls it made, in the order it made them.
\<close>

type_synonym ('w, 'e, 'a) prog = "'w \<Rightarrow> 'a \<times> 'w \<times> 'e list"

definition ret :: "'a \<Rightarrow> ('w, 'e, 'a) prog" where
  "ret a = (\<lambda>w. (a, w, []))"

definition andThen :: "('w, 'e, 'a) prog \<Rightarrow> ('a \<Rightarrow> ('w, 'e, 'b) prog) \<Rightarrow> ('w, 'e, 'b) prog" where
  "andThen m f =
     (\<lambda>w. case m w of (a, w1, t1) \<Rightarrow> (case f a w1 of (b, w2, t2) \<Rightarrow> (b, w2, t1 @ t2)))"


section \<open>Upstream client\<close>

record response =
  StatusCode :: int
  RetryAfter :: string
  Body :: string

text \<open>
  What the client calls: the limiter's \<open>Wait\<close>, the HTTP client's \<open>Do\<close> (the request
  is identified by its URL; its three headers are constant), the context's \<open>Err\<close>, the
  \<open>select\<close> between the context and a timer, \<open>crand.Read\<close> of one byte (\<open>None\<close>
  when it fails), the jitter \<open>time.Duration(0.5 * (b / 255.0) * float64(base))\<close>, the
  HTTP-date form of a Retry-After header (\<open>time.Until\<close> of the parsed date, \<open>None\<close>
  when \<open>http.ParseTime\<close> fails) and the JSON decoder. Durations are nanoseconds.
\<close>

record ('w, 'a) net =
  rl_Wait :: "'w \<Rightarrow> error option \<times> 'w"
  NewRequest :: "string \<Rightarrow> error option"
  hc_Do :: "string \<Rightarrow> 'w \<Rightarrow> (error + response) \<times> 'w"
  ctx_Err :: "'w \<Rightarrow> error option"
  timer_select :: "int \<Rightarrow> 'w \<Rightarrow> bool \<times> 'w"
  crand_Read :: "'w \<Rightarrow> nat option \<times> 'w"
  jitter :: "nat \<Rightarrow> int \<Rightarrow> int"
  http_date_until :: "string \<Rightarrow> 'w \<Rightarrow> int option"
  json_Decode :: "string \<Rightarrow> error + 'a"

datatype event =
    EvWait "error option"
  | EvDo string "error + response"
  | EvSleep int bool

definition limiter_wait :: "('w, 'a) net \<Rightarrow> ('w, event, error option) prog" where
  "limiter_wait N = (\<lambda>w. case rl_Wait N w of (r, w') \<Rightarrow> (r, w', [EvWait r]))"

definition do_request :: "('w, 'a) net \<Rightarrow> string \<Rightarrow> ('w, event, error + response) prog" where
  "do_request N url = (\<lambda>w. case hc_Do N url w of (r, w') \<Rightarrow> (r, w', [EvDo url r]))"

definition context_err :: "('w, 'a) net \<Rightarrow> ('w, event, error option) prog" where
  "context_err N = (\<lambda>w. (ctx_Err N w, w, []))"

text \<open>\<open>sleepCtx\<close>: true when the timer fired, false when the context was done first.\<close>

definition sleepCtx :: "('w, 'a) net \<Rightarrow> int \<Rightarrow> ('w, event, bool) prog" where
  "sleepCtx N d =
     (if d \<le> 0 then ret True
      else (\<lambda>w. case timer_select N d w of (fired, w') \<Rightarrow> (fired, w', [EvSleep d fired])))"

definition wrap64 :: "int \<Rightarrow> int" where
  "wrap64 x = (x + 2 ^ 63) mod 2 ^ 64 - 2 ^ 63"

definition Second :: int where
  "Second = 1000000000"

definition Millisecond :: int where
  "Millisecond = 1000000"

definition retryAfter :: "('w, 'a) net \<Rightarrow> response \<Rightarrow> 'w \<Rightarrow> int" where
  "retryAfter N resp w =
     (let h = RetryAfter resp
      in if h = [] then 0
         else (case ParseInt64 (TrimSpace h) of
                 Some secs \<Rightarrow>
                   (if secs \<ge> 0 then wrap64 (secs * Second)
                    else (case http_date_until N h w of
                            Some d \<Rightarrow> (if d > 0 then d else 0)
                          | None \<Rightarrow> 0))
               | None \<Rightarrow>
                   (case http_date_until N h w of
                      Some d \<Rightarrow> (if d > 0 then d else 0)
                    | None \<Rightarrow> 0)))"

definition backoff :: "('w, 'a) net \<Rightarrow> nat \<Rightarrow> ('w, event, int) prog" where
  "backoff N i =
     (\<lambda>w. let base = 2 ^ i * 200 * Millisecond
          in case crand_Read N w of
               (None, w') \<Rightarrow> (base, w', [])
             | (Some b, w') \<Rightarrow> (base + jitter N b base, w', []))"

text \<open>
  One iteration of the retry loop: it either returns from \<open>get\<close> or continues with the
  next attempt, carrying the error it observed.
\<close>

datatype 'r step = Continue error | Return 'r

definition retry_or_return ::
  "('w, 'a) net \<Rightarrow> nat \<Rightarrow> int \<Rightarrow> error \<Rightarrow> ('w, event, (error + 'a option) step) prog" where
  "retry_or_return N i wait lastErr =
     andThen (if i < 3 then sleepCtx N wait else ret False)
       (\<lambda>slept. if slept then ret (Continue lastErr)
                 else andThen (context_err N)
                        (\<lambda>c. case c of
                                Some ce \<Rightarrow> ret (Return (Inl ce))
                              | None \<Rightarrow> ret (Return (Inl lastErr))))"

definition attempt ::
  "('w, 'a) net \<Rightarrow> string \<Rightarrow> nat \<Rightarrow> ('w, event, (error + 'a option) step) prog" where
  "attempt N url i =
     (case NewRequest N url of
        Some err \<Rightarrow> ret (Return (Inl err))
      | None \<Rightarrow>
          andThen (do_request N url)
            (\<lambda>res. case res of
               Inl err \<Rightarrow>
                 andThen (context_err N)
                   (\<lambda>c. case c of
                      Some ce \<Rightarrow> ret (Return (Inl ce))
                    | None \<Rightarrow>
                        (if i < 3
                         then andThen (backoff N i) (\<lambda>d. retry_or_return N i d err)
                         else retry_or_return N i 0 err))
             | Inr resp \<Rightarrow>
                 (if StatusCode resp = 200 \<or> StatusCode resp = 201 \<or> StatusCode resp = 202
                  then ret (Return (case json_Decode N (Body resp) of
                                      Inl err \<Rightarrow> Inl err
                                    | Inr v \<Rightarrow> Inr (Some v)))
                  else if StatusCode resp = 204 then ret (Return (Inr None))
                  else if StatusCode resp = 404 then ret (Return (Inl ErrNotFound))
                  else if StatusCode resp = 401 then ret (Return (Inl ErrUnauthorized))
                  else if StatusCode resp = 403 then ret (Return (Inl ErrForbidden))
                  else if StatusCode resp = 429 \<or> StatusCode resp = 500 \<or>
                          StatusCode resp = 502 \<or> StatusCode resp = 503 \<or>
                          StatusCode resp = 504
                  then andThen (\<lambda>w. (retryAfter N resp w, w, []))
                         (\<lambda>wait0.
                            andThen (if wait0 = 0 then backoff N i else ret wait0)
                              (\<lambda>wait. retry_or_return N i wait
                                         (errors_New (''remote '' @ fmt_d (StatusCode resp)))))
                  else ret (Return (Inl (errors_New
                         (''bad status '' @ fmt_d (StatusCode resp) @ '': '' @
                          TrimSpace (take 4096 (Body resp)))))))))"

text \<open>
  The loop \<open>for i := 0; i < 4; i++\<close> over its indices; after the loop \<open>get\<close> returns
  \<open>lastErr\<close>.
\<close>

fun get_loop ::
  "('w, 'a) net \<Rightarrow> string \<Rightarrow> nat list \<Rightarrow> error option \<Rightarrow> ('w, event, error + 'a option) prog" where
  "get_loop N url [] lastErr = ret (case lastErr of None \<Rightarrow> Inr None | Some e \<Rightarrow> Inl e)"
| "get_loop N url (i # rest) lastErr =
     (\<lambda>w. case attempt N url i w of
            (Return r, w1, t1) \<Rightarrow> (r, w1, t1)
          | (Continue e, w1, t1) \<Rightarrow>
              (case get_loop N url rest (Some e) w1 of (r, w2, t2) \<Rightarrow> (r, w2, t1 @ t2)))"

text \<open>
  \<open>get\<close>: the result is the error, or the value decoded into \<open>out\<close> (\<open>None\<close> when
  \<open>out\<close> was left untouched, as on 204).
\<close>

definition get :: "('w, 'a) net \<Rightarrow> string \<Rightarrow> ('w, event, error + 'a option) prog" where
  "get N url =
     andThen (limiter_wait N)
       (\<lambda>r. case r of
               Some err \<Rightarrow> ret (Inl err)
             | None \<Rightarrow> get_loop N url [0, 1, 2, 3] None)"

text \<open>
  \<open>getFirst\<close>, over the function that fetches one URL (the client passes its \<open>get\<close>).
\<close>

fun getFirst_loop ::
  "(string \<Rightarrow> ('w, 'e, error + 'r) prog) \<Rightarrow> string list \<Rightarrow> error option \<Rightarrow>
   ('w, 'e, error + 'r) prog" where
  "getFirst_loop g [] lastErr =
     ret (case lastErr of
            Some e \<Rightarrow> Inl e
          | None \<Rightarrow> Inl (errors_New ''no candidate URL succeeded''))"
| "getFirst_loop g (u # us) lastErr =
     (\<lambda>w. case g u w of
            (Inl err, w1, t1) \<Rightarrow>
              (if errors_Is err CupidErrNotFound
               then (case getFirst_loop g us (Some err) w1 of (r, w2, t2) \<Rightarrow> (r, w2, t1 @ t2))
               else (Inl err, w1, t1))
          | (Inr v, w1, t1) \<Rightarrow> (Inr v, w1, t1))"

definition getFirst ::
  "(string \<Rightarrow> ('w, 'e, error + 'r) prog) \<Rightarrow> string list \<Rightarrow> ('w, 'e, error + 'r) prog" where
  "getFirst g urls = getFirst_loop g urls None"

definition Client_getFirst ::
  "('w, 'a) net \<Rightarrow> string list \<Rightarrow> ('w, event, error + 'a option) prog" where
  "Client_getFirst N urls = getFirst (get N) urls"

section \<open>Ingestion service\<close>


datatype 'f call =
    GetProperty int
  | GetReviews int int
  | GetTranslation int string
  | UpsertProperty "'f Hotel"
  | UpsertI18n HotelI18n
  | UpsertReviews "'f Review list"
  | LogMiss int int string
  | Del string








text \<open>\<open>_ = s.cache.Del(ctx, key)\<close> on a cache that is not nil.\<close>

definition cache_Del ::
  "(string \<Rightarrow> 'w \<Rightarrow> error option \<times> 'w) \<Rightarrow> string \<Rightarrow> ('w, 'f call, unit) prog" where
  "cache_Del del key = (\<lambda>w. case del key w of (r, w') \<Rightarrow> ((), w', [Del key]))"


definition invalidateHotelLang ::
  "(string \<Rightarrow> 'w \<Rightarrow> error option \<times> 'w) \<Rightarrow> int \<Rightarrow> string \<Rightarrow> ('w, 'f call, unit) prog" where
  "invalidateHotelLang del pid lang =
     cache_Del del (''hotel:'' @ fmt_d pid @ '':'' @ ToLower lang)"









section \<open>Statements of the specification and example inputs\<close>




text \<open>
  A stand-in for the library parameters, used to evaluate examples: floats are reals,
  only integer numerals parse, and the hash is the identity.
\<close>

definition example_lib :: "real lib" where
  "example_lib =
     \<lparr> ParseFloat = (\<lambda>s. map_option of_int (ParseInt64 s)),
       float64_of_int = of_int,
       int64_of_float = floor,
       int_of_float = floor,
       Sprintf_3f = (\<lambda>x. fmt_d (floor x) @ ''.000''),
       json_Marshal = (\<lambda>v. Some ''{}''),
       sha1_Sum = (\<lambda>s. s) \<rparr>"

text \<open>
  Observing \<open>getFirst\<close>: the fetch function wrapped so that each call leaves one
  entry, the URL it was given and the outcome it returned.
\<close>

definition logged ::
  "(string \<Rightarrow> ('w, 'e, error + 'r) prog) \<Rightarrow> string \<Rightarrow> ('w, string \<times> (error + 'r), error + 'r) prog" where
  "logged g u = (\<lambda>w. case g u w of (r, w', t) \<Rightarrow> (r, w', [(u, r)]))"

definition notFound_outcome :: "error + 'r \<Rightarrow> bool" where
  "notFound_outcome r = (case r of Inl err \<Rightarrow> errors_Is err CupidErrNotFound | Inr v \<Rightarrow> False)"

text \<open>The outcomes of the requests of a trace, in order.\<close>

fun requests :: "event list \<Rightarrow> (error + response) list" where
  "requests [] = []"
| "requests (EvDo u r # es) = r # requests es"
| "requests (EvWait x # es) = requests es"
| "requests (EvSleep d b # es) = requests es"





definition example_fetch :: "string \<Rightarrow> (unit, unit, error + nat) prog" where
  "example_fetch u =
     (\<lambda>w. (if u = ''a'' then Inl ErrNotFound
            else if u = ''b'' then Inr 1
            else Inl ErrForbidden, w, []))"








text \<open>A stretch of a trace with no request and no limiter wait.\<close>

definition quiet :: "event list \<Rightarrow> bool" where
  "quiet t = (requests t = [] \<and> (\<forall>x. EvWait x \<notin> set t))"



section \<open>Properties of the mappers\<close>

subsection \<open>Trimming\<close>









subsection \<open>Natural id of a review\<close>

text \<open>
  C5. When no alias of the review identifier resolves, the natural id of the mapped
  review is the hexadecimal digest of the hash of author, title, text, language and
  rating, joined with a pipe, the rating formatted with three decimals and every absent
  value empty. The id is a function of these five mapped values alone: the same
  document mapped twice, and any two documents without identifier whose mapped values
  agree, get the same id.
\<close>

theorem review_natural_id:
  assumes "firstNonEmptyAlias r reviewAliases ''source_id'' = None"
  shows "Review_SourceID (mapReview L propertyID r) =
           Some (hex_EncodeToString (sha1_Sum L
             (deref (Review_Author (mapReview L propertyID r)) @ ''|'' @
              deref (Review_Title (mapReview L propertyID r)) @ ''|'' @
              deref (Review_Text (mapReview L propertyID r)) @ ''|'' @
              deref (Review_Lang (mapReview L propertyID r)) @ ''|'' @
              (case Review_Rating (mapReview L propertyID r) of
                 None \<Rightarrow> []
               | Some x \<Rightarrow> Sprintf_3f L x)))) \<and>
         map Review_SourceID (mapReviews L propertyID [r, r]) =
           [Review_SourceID (mapReview L propertyID r),
            Review_SourceID (mapReview L propertyID r)] \<and>
         (\<forall>r' propertyID'.
            firstNonEmptyAlias r' reviewAliases ''source_id'' = None \<and>
            Review_Author (mapReview L propertyID' r') = Review_Author (mapReview L propertyID r) \<and>
            Review_Title (mapReview L propertyID' r') = Review_Title (mapReview L propertyID r) \<and>
            Review_Text (mapReview L propertyID' r') = Review_Text (mapReview L propertyID r) \<and>
            Review_Lang (mapReview L propertyID' r') = Review_Lang (mapReview L propertyID r) \<and>
            Review_Rating (mapReview L propertyID' r') = Review_Rating (mapReview L propertyID r)
            \<longrightarrow> Review_SourceID (mapReview L propertyID' r') =
                Review_SourceID (mapReview L propertyID r))"
  using assms by (simp add: mapReview_def mapReviews_def review_SourceID_def Let_def)

text \<open>
  An instance: a review with author Ana and rating 9 and nothing else, under the
  stand-in library, gets the digest of \<open>Ana||||9.000\<close>.
\<close>

theorem review_natural_id_witness:
  "firstNonEmptyAlias [(''author'', VString ''Ana''), (''rating'', VFloat64 (9::real))]
     reviewAliases ''source_id'' = None \<and>
   Review_SourceID
     (mapReview example_lib 7 [(''author'', VString ''Ana''), (''rating'', VFloat64 9)]) =
     Some (hex_EncodeToString ''Ana||||9.000'')"
proof -
  have h: "firstNonEmptyAlias [(''author'', VString ''Ana''), (''rating'', VFloat64 (9::real))]
             reviewAliases ''source_id'' = None"
    by (simp add: firstNonEmptyAlias_def aliases_at_def reviewAliases_def lookupStr_def
        lookupAny_def)
  have f: "fmt_d 9 = ''9''" by (simp add: fmt_d_def fmt_nat.simps digit_char_def)
  have a: "review_Author [(''author'', VString ''Ana''), (''rating'', VFloat64 (9::real))] =
             Some ''Ana''"
    by (simp add: review_Author_def firstNonEmptyAlias_def aliases_at_def reviewAliases_def
        lookupStr_def lookupAny_def)
  have t: "review_Text [(''author'', VString ''Ana''), (''rating'', VFloat64 (9::real))] = None"
    by (simp add: review_Text_def firstNonEmptyAlias_def aliases_at_def reviewAliases_def
        lookupStr_def lookupAny_def)
  have o: "firstNonEmptyAlias [(''author'', VString ''Ana''), (''rating'', VFloat64 (9::real))]
             reviewAliases ''title'' = None"
          "firstNonEmptyAlias [(''author'', VString ''Ana''), (''rating'', VFloat64 (9::real))]
             reviewAliases ''lang'' = None"
    by (simp_all add: firstNonEmptyAlias_def aliases_at_def reviewAliases_def lookupStr_def
        lookupAny_def)
  have g: "getFloatFlexible example_lib
             [(''author'', VString ''Ana''), (''rating'', VFloat64 (9::real))]
             (aliases_at reviewAliases ''rating'') = Some 9"
    by (simp add: aliases_at_def reviewAliases_def lookupAny_def)
  have s: "Sprintf_3f example_lib 9 = ''9.000''" "sha1_Sum example_lib = (\<lambda>s. s)"
    by (simp_all add: example_lib_def f)
  show ?thesis
    using h review_natural_id [OF h, of example_lib 7, THEN conjunct1]
    by (simp add: mapReview_def a t o g s deref_def Let_def)
qed

subsection \<open>Text of a review\<close>




subsection \<open>Address of a property\<close>




section \<open>Properties of the upstream client\<close>

subsection \<open>getFirst\<close>

lemma getFirst_loop_log:
  assumes "getFirst_loop (logged g) us lastErr w = (r, w', tried)"
  shows "map fst tried = take (length tried) us \<and>
         (\<forall>x \<in> set (butlast (map snd tried)). notFound_outcome x) \<and>
         (tried \<noteq> [] \<longrightarrow> r = snd (last tried)) \<and>
         (tried \<noteq> [] \<and> notFound_outcome (snd (last tried)) \<longrightarrow> length tried = length us) \<and>
         (tried = [] \<longrightarrow> us = [] \<and>
            r = (case lastErr of
                   Some e \<Rightarrow> Inl e
                 | None \<Rightarrow> Inl (errors_New ''no candidate URL succeeded'')))"
  using assms
proof (induction us arbitrary: lastErr w r w' tried)
  case Nil
  then show ?case by (simp add: ret_def)
next
  case (Cons u us)
  obtain o1 w1 t1 where g: "g u w = (o1, w1, t1)" by (cases "g u w") auto
  then have lg: "logged g u w = (o1, w1, [(u, o1)])" by (simp add: logged_def)
  show ?case
  proof (cases "notFound_outcome o1")
    case False
    then have "r = o1 \<and> tried = [(u, o1)]"
      using Cons.prems lg
      by (auto simp: notFound_outcome_def split: sum.splits if_splits)
    with False show ?thesis by simp
  next
    case True
    then obtain err where o1: "o1 = Inl err" and nf: "errors_Is err CupidErrNotFound"
      by (auto simp: notFound_outcome_def split: sum.splits)
    obtain r2 w2 t2 where rec: "getFirst_loop (logged g) us (Some err) w1 = (r2, w2, t2)"
      by (cases "getFirst_loop (logged g) us (Some err) w1") auto
    have eq: "r = r2" "tried = (u, o1) # t2"
      using Cons.prems lg o1 nf rec by auto
    note ih = Cons.IH [OF rec]
    show ?thesis
    proof (cases "t2 = []")
      case True
      with ih eq o1 nf show ?thesis by (simp add: notFound_outcome_def)
    next
      case False
      with ih eq \<open>notFound_outcome o1\<close> show ?thesis by auto
    qed
  qed
qed


text \<open>
  C2. \<open>getFirst\<close> is run on a fetch function that records each call (any fetch
  function, so also the \<open>get\<close> of the client), so that \<open>tried\<close> lists the
  candidates fetched with their outcomes. The candidates are
  fetched strictly in order from the first, with none skipped or repeated; every
  candidate but the last one fetched answered not-found, so that any other error and
  the first success end the run; for a non-empty list the result is the outcome of the
  last candidate fetched; when that outcome is not-found every candidate was fetched
  and the result is not-found; an empty list, which is exhausted with no success and no
  recorded error, yields an error; and a success is only ever the success of a
  candidate.
\<close>

theorem getFirst_candidates_in_order:
  assumes "getFirst (logged g) urls w = (r, w', tried)"
  shows "map fst tried = take (length tried) urls \<and>
         (\<forall>x \<in> set (butlast (map snd tried)). notFound_outcome x) \<and>
         (urls \<noteq> [] \<longrightarrow> tried \<noteq> [] \<and> r = snd (last tried)) \<and>
         (tried \<noteq> [] \<and> notFound_outcome (snd (last tried)) \<longrightarrow>
            length tried = length urls \<and> notFound_outcome r) \<and>
         (urls = [] \<longrightarrow> tried = [] \<and> r = Inl (errors_New ''no candidate URL succeeded'')) \<and>
         (\<forall>v. r = Inr v \<longrightarrow> tried \<noteq> [] \<and> snd (last tried) = Inr v)"
proof -
  note l = getFirst_loop_log [OF assms [unfolded getFirst_def]]
  have e: "urls = [] \<Longrightarrow> tried = []"
    using assms by (simp add: getFirst_def ret_def)
  from l e show ?thesis by (cases "tried = []") auto
qed

text \<open>
  An instance: of three candidates the first answers not-found and the second
  succeeds; the third is never fetched.
\<close>

theorem getFirst_candidates_in_order_witness:
  "getFirst (logged example_fetch) [''a'', ''b'', ''c''] () =
     (Inr 1, (), [(''a'', Inl ErrNotFound), (''b'', Inr 1)]) \<and>
   map fst [(''a'', Inl ErrNotFound), (''b'', Inr (1::nat))] = take 2 [''a'', ''b'', ''c''] \<and>
   notFound_outcome (Inl ErrNotFound :: error + nat) \<and>
   fst (getFirst (logged example_fetch) [''a'', ''a''] ()) = Inl ErrNotFound \<and>
   fst (getFirst (logged example_fetch) [''c'', ''b''] ()) = Inl ErrForbidden \<and>
   fst (getFirst (logged example_fetch) [] ()) = Inl (errors_New ''no candidate URL succeeded'')"
proof -
  have e: "getFirst (logged example_fetch) [''a'', ''b'', ''c''] () =
     (Inr 1, (), [(''a'', Inl ErrNotFound), (''b'', Inr 1)])"
    by (simp add: getFirst_def logged_def example_fetch_def ErrNotFound_def errors_Is_def)
  have a: "getFirst (logged example_fetch) [''a'', ''a''] () =
     (Inl ErrNotFound, (), [(''a'', Inl ErrNotFound), (''a'', Inl ErrNotFound)])"
    by (simp add: getFirst_def logged_def example_fetch_def ErrNotFound_def errors_Is_def
        ret_def)
  have c: "getFirst (logged example_fetch) [''c'', ''b''] () =
     (Inl ErrForbidden, (), [(''c'', Inl ErrForbidden)])"
    by (simp add: getFirst_def logged_def example_fetch_def ErrForbidden_def errors_Is_def)
  obtain r w' tried where n: "getFirst (logged example_fetch) [] () = (r, w', tried)"
    by (cases "getFirst (logged example_fetch) [] ()") auto
  from getFirst_candidates_in_order [OF n]
  have "fst (getFirst (logged example_fetch) [] ()) =
          Inl (errors_New ''no candidate URL succeeded'')"
    using n by simp
  with getFirst_candidates_in_order [OF e] getFirst_candidates_in_order [OF a]
    getFirst_candidates_in_order [OF c] e a c
  show ?thesis by simp
qed

subsection \<open>get\<close>



lemma requests_append: "requests (s @ t) = requests s @ requests t"
  by (induction s rule: requests.induct) auto



lemma quiet_append: "quiet s \<Longrightarrow> quiet t \<Longrightarrow> quiet (s @ t)"
  by (auto simp: quiet_def requests_append)















subsection \<open>The scripted server\<close>











section \<open>Properties of the ingestion service\<close>


lemma world_andThen:
  "fst (snd (andThen m f w)) = fst (snd (f (fst (m w)) (fst (snd (m w)))))"
  by (simp add: andThen_def split: prod.splits)


lemma trace_cache_Del: "snd (snd (cache_Del del key w)) = [Del key]"
  by (simp add: cache_Del_def split: prod.splits)






lemma trace_invalidateHotelLang:
  "snd (snd (invalidateHotelLang del pid lang w)) =
     [Del (''hotel:'' @ fmt_d pid @ '':'' @ ToLower lang)]"
  by (simp add: invalidateHotelLang_def trace_cache_Del)










subsection \<open>Not-found short-circuit\<close>



subsection \<open>Upsert before invalidation\<close>



subsection \<open>Documents without an id\<close>




subsection \<open>Classification of fetch errors\<close>




end
